theory Spec2Isabelle
  imports Main "HOL-Library.Word"
begin

section \<open>The interpreter's built-ins that client.py calls\<close>

text \<open>
  client.py is a top-level script. It calls \<^verbatim>\<open>int\<close>, \<^verbatim>\<open>str.lower\<close>, \<^verbatim>\<open>str.encode\<close>,
  \<^verbatim>\<open>bytes.decode\<close>, \<^verbatim>\<open>input\<close>, \<^verbatim>\<open>print\<close> and three socket operations. A Python
  \<^verbatim>\<open>str\<close> is a sequence of Unicode code points and is modelled as a list of naturals;
  \<^verbatim>\<open>bytes\<close> is a list of 8-bit words; Python's unbounded \<^verbatim>\<open>int\<close> is \<open>int\<close>.
\<close>

type_synonym pystr = "nat list"
type_synonym bytes = "8 word list"

abbreviation str :: "string \<Rightarrow> pystr" where
  "str s \<equiv> map of_char s"

datatype exn =
  IndexError | ValueError | OSError | EOFError | UnicodeEncodeError | UnicodeDecodeError

text \<open>
  What the interpreter does on strings with code points above ASCII depends on the Unicode
  character database (case mapping, decimal digits, white space), which is no part of the
  program: it is a parameter. \<open>max_str_digits\<close> is the interpreter's limit on the number of
  digits \<^verbatim>\<open>int\<close> converts (4300 by default since CPython 3.11, 0 for no limit).
  \<open>prompt_on_stderr\<close> says where \<^verbatim>\<open>input\<close> shows its prompt: when standard input and
  standard output are both terminals the interpreter's line reader writes it to standard
  error; otherwise, as with standard output piped or redirected, \<^verbatim>\<open>input\<close> writes it to
  standard output.
\<close>

record platform =
  unicode_lower :: "pystr \<Rightarrow> pystr"
  unicode_int :: "pystr \<Rightarrow> int option"
  max_str_digits :: nat
  prompt_on_stderr :: bool

definition is_ascii :: "nat \<Rightarrow> bool" where
  "is_ascii c = (c < 128)"

definition ascii_lower :: "nat \<Rightarrow> nat" where
  "ascii_lower c = (if 65 \<le> c \<and> c \<le> 90 then c + 32 else c)"

text \<open>\<^verbatim>\<open>msg.lower()\<close>: on an ASCII string, A to Z are mapped to a to z.\<close>

definition lower :: "platform \<Rightarrow> pystr \<Rightarrow> pystr" where
  "lower P s = (if list_all is_ascii s then map ascii_lower s else unicode_lower P s)"

subsection \<open>\<^verbatim>\<open>int(s)\<close> on a string, base 10\<close>

text \<open>
  White space (tab, line feed, vertical tab, form feed, carriage return, space) is
  stripped at both ends; one sign may follow; then at least one digit, with single
  underscores allowed between digits. Anything else raises ValueError, here \<open>None\<close>.
\<close>

definition is_space :: "nat \<Rightarrow> bool" where
  "is_space c = ((9 \<le> c \<and> c \<le> 13) \<or> c = 32)"

definition is_digit :: "nat \<Rightarrow> bool" where
  "is_digit c = (48 \<le> c \<and> c \<le> 57)"

definition strip :: "pystr \<Rightarrow> pystr" where
  "strip s = rev (dropWhile is_space (rev (dropWhile is_space s)))"

fun digits_value :: "pystr \<Rightarrow> nat \<Rightarrow> nat option" where
  "digits_value [] acc = Some acc"
| "digits_value (c # cs) acc =
     (if is_digit c then digits_value cs (10 * acc + (c - 48))
      else if c = 95 then
        (case cs of
           [] \<Rightarrow> None
         | d # ds \<Rightarrow> if is_digit d then digits_value cs acc else None)
      else None)"

definition unsigned_value :: "platform \<Rightarrow> pystr \<Rightarrow> nat option" where
  "unsigned_value P ds =
     (case ds of
        [] \<Rightarrow> None
      | d # _ \<Rightarrow>
          if \<not> is_digit d then None
          else if 0 < max_str_digits P \<and> max_str_digits P < length (filter is_digit ds)
            then None
          else digits_value ds 0)"

definition py_int :: "platform \<Rightarrow> pystr \<Rightarrow> int option" where
  "py_int P s =
     (if \<not> list_all is_ascii s then unicode_int P s
      else
        (case strip s of
           [] \<Rightarrow> None
         | c # cs \<Rightarrow>
             if c = 45 then map_option (\<lambda>n. - int n) (unsigned_value P cs)
             else if c = 43 then map_option int (unsigned_value P cs)
             else map_option int (unsigned_value P (c # cs))))"

subsection \<open>\<^verbatim>\<open>str(n)\<close>, as the f-string formats the port\<close>

fun show_nat :: "nat \<Rightarrow> pystr" where
  "show_nat n = (if n < 10 then [48 + n] else show_nat (n div 10) @ [48 + n mod 10])"

definition show_int :: "int \<Rightarrow> pystr" where
  "show_int i = (if i < 0 then 45 # show_nat (nat (- i)) else show_nat (nat i))"

subsection \<open>UTF-8, the default of \<^verbatim>\<open>encode\<close> and \<^verbatim>\<open>decode\<close>\<close>

definition encode_cp :: "nat \<Rightarrow> bytes option" where
  "encode_cp c =
     (if c < 0x80 then Some [of_nat c]
      else if c < 0x800 then Some [of_nat (0xC0 + c div 64), of_nat (0x80 + c mod 64)]
      else if c < 0x10000 then
        (if 0xD800 \<le> c \<and> c \<le> 0xDFFF then None
         else Some [of_nat (0xE0 + c div 4096), of_nat (0x80 + c div 64 mod 64),
                    of_nat (0x80 + c mod 64)])
      else if c < 0x110000 then
        Some [of_nat (0xF0 + c div 262144), of_nat (0x80 + c div 4096 mod 64),
              of_nat (0x80 + c div 64 mod 64), of_nat (0x80 + c mod 64)]
      else None)"

text \<open>\<^verbatim>\<open>msg.encode()\<close>: a lone surrogate raises UnicodeEncodeError, here \<open>None\<close>.\<close>

fun encode :: "pystr \<Rightarrow> bytes option" where
  "encode [] = Some []"
| "encode (c # cs) =
     (case encode_cp c of
        None \<Rightarrow> None
      | Some bs \<Rightarrow> map_option ((@) bs) (encode cs))"

definition cont :: "nat \<Rightarrow> bool" where
  "cont b = (0x80 \<le> b \<and> b \<le> 0xBF)"

text \<open>
  One code point from the front of a byte sequence, with the bytes left over. The ranges of
  the second byte exclude overlong forms, surrogates and values above 0x10FFFF.
\<close>

fun utf8_head :: "nat list \<Rightarrow> (nat \<times> nat list) option" where
  "utf8_head [] = None"
| "utf8_head (b # bs) =
     (if b < 0x80 then Some (b, bs)
      else if 0xC2 \<le> b \<and> b \<le> 0xDF then
        (case bs of
           c1 # r \<Rightarrow> if cont c1 then Some ((b - 0xC0) * 64 + (c1 - 0x80), r) else None
         | _ \<Rightarrow> None)
      else if 0xE0 \<le> b \<and> b \<le> 0xEF then
        (case bs of
           c1 # c2 # r \<Rightarrow>
             if (if b = 0xE0 then 0xA0 else 0x80) \<le> c1
                \<and> c1 \<le> (if b = 0xED then 0x9F else 0xBF) \<and> cont c2
             then Some ((b - 0xE0) * 4096 + (c1 - 0x80) * 64 + (c2 - 0x80), r)
             else None
         | _ \<Rightarrow> None)
      else if 0xF0 \<le> b \<and> b \<le> 0xF4 then
        (case bs of
           c1 # c2 # c3 # r \<Rightarrow>
             if (if b = 0xF0 then 0x90 else 0x80) \<le> c1
                \<and> c1 \<le> (if b = 0xF4 then 0x8F else 0xBF) \<and> cont c2 \<and> cont c3
             then Some ((b - 0xF0) * 262144 + (c1 - 0x80) * 4096 + (c2 - 0x80) * 64
                        + (c3 - 0x80), r)
             else None
         | _ \<Rightarrow> None)
      else None)"

lemma utf8_head_shorter: "utf8_head bs = Some (c, r) \<Longrightarrow> length r < length bs"
  by (cases bs) (auto split: if_splits list.splits)

function utf8_decode :: "nat list \<Rightarrow> pystr option" where
  "utf8_decode [] = Some []"
| "utf8_decode (b # bs) =
     (case utf8_head (b # bs) of
        None \<Rightarrow> None
      | Some (c, r) \<Rightarrow> map_option ((#) c) (utf8_decode r))"
  by pat_completeness auto
termination
  by (relation "measure length") (auto dest: utf8_head_shorter simp del: utf8_head.simps)

text \<open>\<^verbatim>\<open>response.decode()\<close>: invalid UTF-8 raises UnicodeDecodeError, here \<open>None\<close>.\<close>

definition decode :: "bytes \<Rightarrow> pystr option" where
  "decode bs = utf8_decode (map unat bs)"

section \<open>The world the script runs in\<close>

text \<open>
  A run is observed as the list of its effects in order. \<open>Connect h p ok\<close> is the call
  \<^verbatim>\<open>socket.create_connection((h, p))\<close> and whether it returned a socket; \<open>SendAll b\<close> is the
  call \<^verbatim>\<open>sock.sendall(b)\<close>; \<open>Recv n r\<close> is the call \<^verbatim>\<open>sock.recv(n)\<close>, with the bytes it
  returned, or \<open>None\<close> when it raised or never returned; \<open>Close\<close> is the closing of the
  socket when the \<^verbatim>\<open>with\<close> block is left; \<open>Traceback e\<close> is the interpreter's report of
  an exception nobody caught.
\<close>

datatype event =
  Stdout pystr
| Stderr pystr
| Connect pystr int bool
| SendAll bytes
| Recv nat "bytes option"
| Close
| Traceback exn

text \<open>
  What the network does during one send and receive cycle: the send fails, the receive
  fails, or \<open>Arrives d fin\<close>: by the time the receive call looks, the bytes \<open>d\<close> have come
  in from the peer, and with \<open>fin\<close> the peer has then closed its side.
\<close>

datatype net_step = SendFails | RecvFails | Arrives bytes bool

record env =
  argv :: "pystr list"
  connect_fails :: bool
  stdin :: "pystr list"
  peer :: "net_step list"

text \<open>
  The state of the interactive loop: the lines \<^verbatim>\<open>input\<close> will still return (after the last
  one the console is at end-of-file), what the network will still do, the bytes received
  from the peer and not yet read, and whether the peer has closed.
\<close>

record session =
  console :: "pystr list"
  network :: "net_step list"
  inbuf :: bytes
  peer_closed :: bool

datatype step = Next session | Break | Raise exn | Block

datatype flow = Broke | Raised exn | Stalled

datatype outcome = Exit nat | Uncaught exn | Blocked

definition newline :: pystr where
  "newline = [10]"

definition prompt :: pystr where
  "prompt = str ''> ''"

definition usage_line :: pystr where
  "usage_line = str ''Usage: python main.py HOST PORT'' @ newline"

definition banner :: "pystr \<Rightarrow> int \<Rightarrow> pystr" where
  "banner host port =
     str ''Connected to '' @ host @ str '':'' @ show_int port @ newline
     @ str ''Type '' @ [34] @ str ''exit'' @ [34] @ str '' to end the connection.'' @ newline"

definition closing_notice :: pystr where
  "closing_notice = str ''[*] Connection closed.'' @ newline"

text \<open>
  A blocking receive on a stream socket: it returns up to \<open>n\<close> of the unread bytes as soon as
  there are any, the empty byte string once the peer has closed and nothing is left, and
  does not return (\<open>None\<close>) while neither is the case. The result is the bytes returned and
  the bytes that stay unread.
\<close>

definition sock_recv :: "nat \<Rightarrow> bytes \<Rightarrow> bool \<Rightarrow> (bytes \<times> bytes) option" where
  "sock_recv n buf closed =
     (if buf \<noteq> [] then Some (take n buf, drop n buf)
      else if closed then Some ([], [])
      else None)"

text \<open>The next step of the network; a network with nothing left to do stays silent.\<close>

definition next_net :: "net_step list \<Rightarrow> net_step" where
  "next_net ns = (case ns of [] \<Rightarrow> Arrives [] False | x # _ \<Rightarrow> x)"

text \<open>The unread bytes once \<open>d\<close> has come in; a peer that has closed sends nothing more.\<close>

definition incoming :: "session \<Rightarrow> bytes \<Rightarrow> bytes" where
  "incoming s d = (if peer_closed s then inbuf s else inbuf s @ d)"

section \<open>client.py\<close>

text \<open>
  Lines 8 to 10, the body of the \<^verbatim>\<open>try\<close>: \<^verbatim>\<open>sys.argv[1]\<close>, then \<^verbatim>\<open>int(sys.argv[2])\<close>. The
  list is \<^verbatim>\<open>sys.argv\<close>, whose element 0 is the script: the arguments start at index 1.
\<close>

definition parse_args :: "platform \<Rightarrow> pystr list \<Rightarrow> exn + (pystr \<times> int)" where
  "parse_args P av =
     (if length av \<le> 1 then Inl IndexError
      else if length av \<le> 2 then Inl IndexError
      else (case py_int P (av ! 2) of
              None \<Rightarrow> Inl ValueError
            | Some port \<Rightarrow> Inr (av ! 1, port)))"

text \<open>
  The first effect of \<^verbatim>\<open>input("> ")\<close>: the prompt, on the stream the platform shows it on.
\<close>

definition prompt_event :: "platform \<Rightarrow> event" where
  "prompt_event P = (if prompt_on_stderr P then Stderr prompt else Stdout prompt)"

text \<open>
  Lines 18 to 23, one pass through the body of \<^verbatim>\<open>while True\<close>: the effects of the pass and
  how it ends. \<^verbatim>\<open>input("> ")\<close> shows the prompt and reads a line; at end-of-file it raises
  EOFError.
\<close>

definition body :: "platform \<Rightarrow> session \<Rightarrow> event list \<times> step" where
  "body P s =
     (case console s of
        [] \<Rightarrow> ([prompt_event P], Raise EOFError)
      | msg # rest \<Rightarrow>
          if lower P msg = str ''exit'' then ([prompt_event P], Break)
          else
            (case encode msg of
               None \<Rightarrow> ([prompt_event P], Raise UnicodeEncodeError)
             | Some payload \<Rightarrow>
                 (case next_net (network s) of
                    SendFails \<Rightarrow> ([prompt_event P, SendAll payload], Raise OSError)
                  | RecvFails \<Rightarrow>
                      ([prompt_event P, SendAll payload, Recv 1024 None], Raise OSError)
                  | Arrives d fin \<Rightarrow>
                      (case sock_recv 1024 (incoming s d) (peer_closed s \<or> fin) of
                         None \<Rightarrow> ([prompt_event P, SendAll payload, Recv 1024 None], Block)
                       | Some (response, unread) \<Rightarrow>
                           (case decode response of
                              None \<Rightarrow>
                                ([prompt_event P, SendAll payload, Recv 1024 (Some response)],
                                 Raise UnicodeDecodeError)
                            | Some text \<Rightarrow>
                                ([prompt_event P, SendAll payload, Recv 1024 (Some response),
                                  Stdout (text @ newline)],
                                 Next \<lparr>console = rest, network = tl (network s),
                                       inbuf = unread,
                                       peer_closed = (peer_closed s \<or> fin)\<rparr>))))))"

lemma body_consumes: "body P s = (ev, Next s') \<Longrightarrow> length (console s') < length (console s)"
  by (auto simp: body_def split: list.splits if_splits option.splits net_step.splits
      prod.splits)

text \<open>Line 17, \<^verbatim>\<open>while True\<close>: the effects of the whole loop and how it is left.\<close>

function loop :: "platform \<Rightarrow> session \<Rightarrow> event list \<times> flow" where
  "loop P s =
     (case body P s of
        (ev, Next s') \<Rightarrow> (case loop P s' of (ev', r) \<Rightarrow> (ev @ ev', r))
      | (ev, Break) \<Rightarrow> (ev, Broke)
      | (ev, Raise e) \<Rightarrow> (ev, Raised e)
      | (ev, Block) \<Rightarrow> (ev, Stalled))"
  by pat_completeness auto
termination
  by (relation "measure (\<lambda>(P, s). length (console s))") (auto dest: body_consumes [OF sym])

declare loop.simps [simp del]

definition session0 :: "env \<Rightarrow> session" where
  "session0 E = \<lparr>console = stdin E, network = peer E, inbuf = [], peer_closed = False\<rparr>"

text \<open>
  The whole script. Only IndexError is caught at line 11: the handler prints the usage line
  and calls \<^verbatim>\<open>exit(1)\<close>. The \<^verbatim>\<open>with\<close> block of line 15 closes the socket however the loop
  is left, and an exception goes on from there, past line 25, to the interpreter, which
  reports it and ends the process with status 1.
\<close>

definition main :: "platform \<Rightarrow> env \<Rightarrow> event list \<times> outcome" where
  "main P E =
     (case parse_args P (argv E) of
        Inl IndexError \<Rightarrow> ([Stdout usage_line], Exit 1)
      | Inl e \<Rightarrow> ([Traceback e], Uncaught e)
      | Inr (host, port) \<Rightarrow>
          if connect_fails E
          then ([Connect host port False, Traceback OSError], Uncaught OSError)
          else
            (case loop P (session0 E) of
               (ev, Broke) \<Rightarrow>
                 ([Connect host port True, Stderr (banner host port)] @ ev
                  @ [Close, Stderr closing_notice], Exit 0)
             | (ev, Raised e) \<Rightarrow>
                 ([Connect host port True, Stderr (banner host port)] @ ev
                  @ [Close, Traceback e], Uncaught e)
             | (ev, Stalled) \<Rightarrow>
                 ([Connect host port True, Stderr (banner host port)] @ ev, Blocked)))"

text \<open>The exit status of the process; a run that blocks for ever has none.\<close>

definition exit_status :: "outcome \<Rightarrow> nat option" where
  "exit_status out = (case out of Exit n \<Rightarrow> Some n | Uncaught _ \<Rightarrow> Some 1 | Blocked \<Rightarrow> None)"

section \<open>Observations on a run\<close>

text \<open>The texts written to standard output, write by write.\<close>

fun printed :: "event list \<Rightarrow> pystr list" where
  "printed [] = []"
| "printed (Stdout x # t) = x # printed t"
| "printed (_ # t) = printed t"

text \<open>The byte strings the receive calls returned, call by call.\<close>

fun received :: "event list \<Rightarrow> bytes list" where
  "received [] = []"
| "received (Recv n (Some r) # t) = r # received t"
| "received (_ # t) = received t"

text \<open>The sizes the receive calls asked for, call by call.\<close>

fun requested :: "event list \<Rightarrow> nat list" where
  "requested [] = []"
| "requested (Recv n r # t) = n # requested t"
| "requested (_ # t) = requested t"

text \<open>The bytes handed to the send-all primitive, in order.\<close>

fun transmitted :: "event list \<Rightarrow> bytes" where
  "transmitted [] = []"
| "transmitted (SendAll b # t) = b @ transmitted t"
| "transmitted (_ # t) = transmitted t"


text \<open>
  The effects the loop can have: writes to standard output, the prompt on standard error,
  sends and receives.
\<close>

fun in_loop :: "event \<Rightarrow> bool" where
  "in_loop (Stdout _) = True"
| "in_loop (Stderr x) = (x = prompt)"
| "in_loop (SendAll _) = True"
| "in_loop (Recv _ _) = True"
| "in_loop _ = False"

text \<open>
  The life of the connection as the specification draws it: DISCONNECTED, then CONNECTED,
  then CLOSED. \<open>lifecycle\<close> follows a run through these states and rejects (\<open>None\<close>) a run
  that opens a second connection, sends or receives on a socket that is not open, or closes
  a socket that is not open. No step leads back to DISCONNECTED.
\<close>

datatype conn = DISCONNECTED | CONNECTED | CLOSED

fun conn_step :: "conn \<Rightarrow> event \<Rightarrow> conn option" where
  "conn_step c (Connect h p ok) =
     (if c = DISCONNECTED then Some (if ok then CONNECTED else DISCONNECTED) else None)"
| "conn_step c (SendAll b) = (if c = CONNECTED then Some CONNECTED else None)"
| "conn_step c (Recv n r) = (if c = CONNECTED then Some CONNECTED else None)"
| "conn_step c Close = (if c = CONNECTED then Some CLOSED else None)"
| "conn_step c _ = Some c"

fun lifecycle :: "conn \<Rightarrow> event list \<Rightarrow> conn option" where
  "lifecycle c [] = Some c"
| "lifecycle c (e # t) = (case conn_step c e of None \<Rightarrow> None | Some c' \<Rightarrow> lifecycle c' t)"

text \<open>
  The exit test in the specification's words: the trimmed line, compared without regard to
  case, equals \<^verbatim>\<open>exit\<close>. The test of the code is \<open>lower P msg = str ''exit''\<close>, in \<open>body\<close>.
\<close>

definition spec_exit_token :: "pystr \<Rightarrow> bool" where
  "spec_exit_token msg = (map ascii_lower (strip msg) = str ''exit'')"

text \<open>
  A platform for runs on ASCII strings, where the Unicode tables are never looked at, with
  standard output not a terminal.
\<close>

definition ascii_platform :: platform where
  "ascii_platform =
     \<lparr>unicode_lower = (\<lambda>s. s), unicode_int = (\<lambda>_. None), max_str_digits = 4300,
      prompt_on_stderr = False\<rparr>"

text \<open>The same platform with the script run at a terminal.\<close>

definition terminal_platform :: platform where
  "terminal_platform = ascii_platform\<lparr>prompt_on_stderr := True\<rparr>"

text \<open>The command line \<^verbatim>\<open>client.py localhost 8080\<close>.\<close>

definition argv_ok :: "pystr list" where
  "argv_ok = [str ''client.py'', str ''localhost'', str ''8080'']"

section \<open>Unfolding the loop\<close>

lemmas text_defs = newline_def prompt_def usage_line_def banner_def closing_notice_def

lemmas int_defs = py_int_def is_ascii_def strip_def is_space_def unsigned_value_def is_digit_def

lemmas run_defs = body_def lower_def is_ascii_def ascii_lower_def encode_cp_def next_net_def
  incoming_def sock_recv_def decode_def cont_def

lemma ascii_prompt [simp]: "prompt_event ascii_platform = Stdout prompt"
  by (simp add: prompt_event_def ascii_platform_def)

lemma parse_argv_ok: "parse_args ascii_platform argv_ok = Inr (str ''localhost'', 8080)"
  by (simp add: parse_args_def argv_ok_def int_defs ascii_platform_def)

lemma loop_Next:
  "body P s = (ev, Next s') \<Longrightarrow> loop P s = (ev @ fst (loop P s'), snd (loop P s'))"
  by (simp add: loop.simps [of P s] split: prod.splits)

lemma loop_Break: "body P s = (ev, Break) \<Longrightarrow> loop P s = (ev, Broke)"
  by (simp add: loop.simps [of P s])

lemma loop_Raise: "body P s = (ev, Raise e) \<Longrightarrow> loop P s = (ev, Raised e)"
  by (simp add: loop.simps [of P s])

lemma loop_Block: "body P s = (ev, Block) \<Longrightarrow> loop P s = (ev, Stalled)"
  by (simp add: loop.simps [of P s])

section \<open>Start-up\<close>

text \<open>
  C7. With fewer than two arguments after the script name, the run consists of one write,
  the usage line on standard output, and ends with exit status 1; no connection is
  attempted.
\<close>

theorem usage_on_missing_arguments:
  assumes "length (argv E) < 3"
  shows "main P E = ([Stdout (str ''Usage: python main.py HOST PORT'' @ [10])], Exit 1)
     \<and> exit_status (snd (main P E)) = Some 1
     \<and> (\<forall>h p ok. Connect h p ok \<notin> set (fst (main P E)))"
  using assms by (simp add: main_def parse_args_def exit_status_def usage_line_def newline_def)

theorem usage_on_missing_arguments_witness:
  "length (argv \<lparr>argv = [str ''client.py'', str ''localhost''], connect_fails = False,
       stdin = [], peer = []\<rparr>) < 3
   \<and> main ascii_platform \<lparr>argv = [str ''client.py'', str ''localhost''],
       connect_fails = False, stdin = [], peer = []\<rparr>
     = ([Stdout (str ''Usage: python main.py HOST PORT'' @ [10])], Exit 1)"
  using usage_on_missing_arguments [of "\<lparr>argv = [str ''client.py'', str ''localhost''],
       connect_fails = False, stdin = [], peer = []\<rparr>" ascii_platform]
  by simp

text \<open>
  C8. With both arguments present and a port that \<^verbatim>\<open>int\<close> rejects, the ValueError is not
  caught: the run consists of the interpreter's error report and ends with status 1.
  Nothing is written to standard output and no connection is attempted, with any port.
\<close>

theorem bad_port_is_fatal:
  assumes "3 \<le> length (argv E)" and "py_int P (argv E ! 2) = None"
  shows "main P E = ([Traceback ValueError], Uncaught ValueError)
     \<and> exit_status (snd (main P E)) = Some 1
     \<and> (\<forall>x. Stdout x \<notin> set (fst (main P E)))
     \<and> (\<forall>h p ok. Connect h p ok \<notin> set (fst (main P E)))"
  using assms by (simp add: main_def parse_args_def exit_status_def)

theorem bad_port_is_fatal_witness:
  "3 \<le> length (argv \<lparr>argv = [str ''client.py'', str ''localhost'', str ''http''],
       connect_fails = False, stdin = [str ''exit''], peer = []\<rparr>)
   \<and> py_int ascii_platform (str ''http'') = None
   \<and> main ascii_platform \<lparr>argv = [str ''client.py'', str ''localhost'', str ''http''],
       connect_fails = False, stdin = [str ''exit''], peer = []\<rparr>
     = ([Traceback ValueError], Uncaught ValueError)"
proof -
  have p: "py_int ascii_platform (str ''http'') = None"
    by (simp add: int_defs)
  show ?thesis
    using p bad_port_is_fatal [of "\<lparr>argv = [str ''client.py'', str ''localhost'', str ''http''],
       connect_fails = False, stdin = [str ''exit''], peer = []\<rparr>" ascii_platform]
    by simp
qed

section \<open>The loop and the shutdown\<close>

lemma loop_induct [case_names step]:
  assumes "\<And>s. (\<And>ev s'. body Pf s = (ev, Next s') \<Longrightarrow> Q s') \<Longrightarrow> Q s"
  shows "Q s"
proof (induction "length (console s)" arbitrary: s rule: less_induct)
  case less
  show ?case
  proof (rule assms)
    fix ev s'
    assume "body Pf s = (ev, Next s')"
    then have "length (console s') < length (console s)"
      by (rule body_consumes)
    then show "Q s'"
      by (rule less)
  qed
qed

lemma loop_cases [case_names Next Break Raise Block]:
  obtains ev s' where "body P s = (ev, Next s')"
      and "loop P s = (ev @ fst (loop P s'), snd (loop P s'))"
  | ev where "body P s = (ev, Break)" and "loop P s = (ev, Broke)"
  | ev e where "body P s = (ev, Raise e)" and "loop P s = (ev, Raised e)"
  | ev where "body P s = (ev, Block)" and "loop P s = (ev, Stalled)"
proof (cases "body P s")
  case (Pair ev st)
  then show ?thesis
    by (cases st) (auto intro: that dest: loop_Next loop_Break loop_Raise loop_Block)
qed

lemma prompt_in_loop [simp]: "in_loop (prompt_event P)"
  by (simp add: prompt_event_def)

lemma prompt_observed [simp]:
  "transmitted (prompt_event P # t) = transmitted t"
  "received (prompt_event P # t) = received t"
  "requested (prompt_event P # t) = requested t"
  "printed (prompt_event P # t) = (if prompt_on_stderr P then printed t else prompt # printed t)"
  "conn_step c (prompt_event P) = Some c"
  by (simp_all add: prompt_event_def)

lemma body_in_loop: "list_all in_loop (fst (body P s))"
  by (simp add: body_def split: list.splits option.splits net_step.splits prod.splits)

lemma body_prompt_first: "\<exists>ev. fst (body P s) = prompt_event P # ev"
  by (simp add: body_def split: list.splits option.splits net_step.splits prod.splits)

lemma body_eof_iff:
  "snd (body P s) = Raise EOFError \<longleftrightarrow> console s = []"
  by (simp add: body_def split: list.splits option.splits net_step.splits prod.splits)

lemma body_eof: "console s = [] \<Longrightarrow> body P s = ([prompt_event P], Raise EOFError)"
  by (simp add: body_def)

lemma body_exit:
  "console s = msg # rest \<Longrightarrow> lower P msg = str ''exit''
     \<Longrightarrow> body P s = ([prompt_event P], Break)"
  by (simp add: body_def)

lemma loop_in_loop: "list_all in_loop (fst (loop P s))"
proof (induction s rule: loop_induct [where Pf = P])
  case (step s)
  show ?case
    using loop_cases [of P s]
  proof cases
    case (Next ev s')
    with step [OF Next(1)] body_in_loop [of P s] show ?thesis by simp
  next
    case (Break ev)
    with body_in_loop [of P s] show ?thesis by simp
  next
    case (Raise ev e)
    with body_in_loop [of P s] show ?thesis by simp
  next
    case (Block ev)
    with body_in_loop [of P s] show ?thesis by simp
  qed
qed

lemma loop_body_prefix: "\<exists>ev. fst (loop P s) = fst (body P s) @ ev"
  using loop_cases [of P s] by cases auto

lemma loop_prompt_first: "\<exists>ev. fst (loop P s) = prompt_event P # ev"
  using loop_cases [of P s]
proof cases
  case (Next ev s')
  with body_prompt_first [of P s] show ?thesis by auto
next
  case (Break ev)
  with body_prompt_first [of P s] show ?thesis by auto
next
  case (Raise ev e)
  with body_prompt_first [of P s] show ?thesis by auto
next
  case (Block ev)
  with body_prompt_first [of P s] show ?thesis by auto
qed

lemma loop_eof_at_prompt:
  "snd (loop P s) = Raised EOFError \<Longrightarrow> \<exists>ev. fst (loop P s) = ev @ [prompt_event P]"
proof (induction s rule: loop_induct [where Pf = P])
  case (step s)
  show ?case
    using loop_cases [of P s]
  proof cases
    case (Next ev s')
    from step.prems Next have "snd (loop P s') = Raised EOFError" by simp
    from step.IH [OF Next(1) this] obtain ev' where "fst (loop P s') = ev' @ [prompt_event P]" ..
    with Next have "fst (loop P s) = (ev @ ev') @ [prompt_event P]" by simp
    then show ?thesis by blast
  next
    case (Break ev)
    with step.prems show ?thesis by simp
  next
    case (Raise ev e)
    with step.prems have "snd (body P s) = Raise EOFError" by simp
    then have "console s = []" by (simp add: body_eof_iff)
    with Raise body_eof [of s P] show ?thesis by simp
  next
    case (Block ev)
    with step.prems show ?thesis by simp
  qed
qed

lemma in_loop_not: "list_all in_loop ev \<Longrightarrow>
   Close \<notin> set ev \<and> (x \<noteq> prompt \<longrightarrow> Stderr x \<notin> set ev) \<and> Traceback e \<notin> set ev
   \<and> Connect h p ok \<notin> set ev"
  by (induction ev) auto

lemma closing_not_prompt: "closing_notice \<noteq> prompt"
  by (simp add: closing_notice_def prompt_def)

lemma banner_not_closing: "banner host port \<noteq> closing_notice"
  by (simp add: banner_def closing_notice_def)

lemma lifecycle_append:
  "lifecycle c (a @ b) = (case lifecycle c a of None \<Rightarrow> None | Some c' \<Rightarrow> lifecycle c' b)"
  by (induction a arbitrary: c) (auto split: option.splits)

lemma lifecycle_in_loop: "list_all in_loop ev \<Longrightarrow> lifecycle CONNECTED ev = Some CONNECTED"
proof (induction ev)
  case Nil
  then show ?case by simp
next
  case (Cons e ev)
  then show ?case by (cases e) auto
qed

lemma count_close_in_loop: "list_all in_loop ev \<Longrightarrow> count_list ev Close = 0"
proof (induction ev)
  case Nil
  then show ?case by simp
next
  case (Cons e ev)
  then show ?case by (cases e) auto
qed

lemma transmitted_append: "transmitted (a @ b) = transmitted a @ transmitted b"
  by (induction a rule: transmitted.induct) auto

lemma main_Broke:
  assumes "parse_args P (argv E) = Inr (host, port)" and "\<not> connect_fails E"
    and "loop P (session0 E) = (ev, Broke)"
  shows "main P E = ([Connect host port True, Stderr (banner host port)] @ ev
                     @ [Close, Stderr closing_notice], Exit 0)"
  using assms by (simp add: main_def)

lemma main_Raised:
  assumes "parse_args P (argv E) = Inr (host, port)" and "\<not> connect_fails E"
    and "loop P (session0 E) = (ev, Raised e)"
  shows "main P E = ([Connect host port True, Stderr (banner host port)] @ ev
                     @ [Close, Traceback e], Uncaught e)"
  using assms by (simp add: main_def)

lemma main_Stalled:
  assumes "parse_args P (argv E) = Inr (host, port)" and "\<not> connect_fails E"
    and "loop P (session0 E) = (ev, Stalled)"
  shows "main P E = ([Connect host port True, Stderr (banner host port)] @ ev, Blocked)"
  using assms by (simp add: main_def)

lemma loop_no_stderr: "x \<noteq> prompt \<Longrightarrow> Stderr x \<notin> set (fst (loop P s))"
  using loop_in_loop [of P s] in_loop_not [of "fst (loop P s)" x] by simp

lemma closing_text: "closing_notice = str ''[*] Connection closed.'' @ [10]"
  by (simp add: closing_notice_def newline_def)

lemma no_notice_when_raised:
  assumes "parse_args P (argv E) = Inr (host, port)" and "\<not> connect_fails E"
    and "snd (loop P (session0 E)) = Raised e"
  shows "Stderr closing_notice \<notin> set (fst (main P E))"
proof -
  have l: "loop P (session0 E) = (fst (loop P (session0 E)), Raised e)"
    using assms(3) by (simp add: prod_eq_iff)
  show ?thesis
    using loop_no_stderr [OF closing_not_prompt, of P "session0 E"]
      banner_not_closing [of host port]
    by (simp add: main_Raised [OF assms(1,2) l])
qed

text \<open>
  C1, as amended. After a successful connect: when the loop is left by \<^verbatim>\<open>break\<close> (the user
  typed the exit token), the run ends with the closing of the socket followed by the closing
  notice on standard error, and the exit status is 0. When the loop is left by an exception
  (EOFError at end-of-input, or an error of the socket or of the codec), the run ends with the
  closing of the socket followed by the interpreter's error report: the closing notice is
  not printed.
\<close>

theorem closing_notice_only_after_break:
  assumes "parse_args P (argv E) = Inr (host, port)" and "\<not> connect_fails E"
  shows "(snd (loop P (session0 E)) = Broke \<longrightarrow>
            (\<exists>pre. fst (main P E)
                 = pre @ [Close, Stderr (str ''[*] Connection closed.'' @ [10])])
            \<and> snd (main P E) = Exit 0)
       \<and> (\<forall>e. snd (loop P (session0 E)) = Raised e \<longrightarrow>
            (\<exists>pre. fst (main P E) = pre @ [Close, Traceback e])
            \<and> Stderr (str ''[*] Connection closed.'' @ [10]) \<notin> set (fst (main P E))
            \<and> snd (main P E) = Uncaught e)"
proof (intro conjI allI impI)
  assume "snd (loop P (session0 E)) = Broke"
  then have "loop P (session0 E) = (fst (loop P (session0 E)), Broke)"
    by (simp add: prod_eq_iff)
  from main_Broke [OF assms this]
  have m: "main P E = (([Connect host port True, Stderr (banner host port)]
                       @ fst (loop P (session0 E)))
                      @ [Close, Stderr (str ''[*] Connection closed.'' @ [10])], Exit 0)"
    by (simp add: closing_text)
  show "\<exists>pre. fst (main P E) = pre @ [Close, Stderr (str ''[*] Connection closed.'' @ [10])]"
    unfolding m fst_conv by (rule exI) (rule refl)
  show "snd (main P E) = Exit 0"
    using m by simp
next
  fix e
  assume r: "snd (loop P (session0 E)) = Raised e"
  then have "loop P (session0 E) = (fst (loop P (session0 E)), Raised e)"
    by (simp add: prod_eq_iff)
  from main_Raised [OF assms this]
  have m: "main P E = (([Connect host port True, Stderr (banner host port)]
                       @ fst (loop P (session0 E))) @ [Close, Traceback e], Uncaught e)"
    by simp
  show "\<exists>pre. fst (main P E) = pre @ [Close, Traceback e]"
    unfolding m fst_conv by (rule exI) (rule refl)
  show "snd (main P E) = Uncaught e"
    using m by simp
  show "Stderr (str ''[*] Connection closed.'' @ [10]) \<notin> set (fst (main P E))"
    using no_notice_when_raised [OF assms r] by (simp add: closing_text)
qed

lemma run_exit:
  "loop ascii_platform \<lparr>console = [str ''exit''], network = [], inbuf = [], peer_closed = False\<rparr>
     = ([Stdout prompt], Broke)"
proof -
  have "body ascii_platform
          \<lparr>console = [str ''exit''], network = [], inbuf = [], peer_closed = False\<rparr>
        = ([Stdout prompt], Break)"
    by (simp add: run_defs)
  then show ?thesis by (rule loop_Break)
qed

lemma run_eof:
  "loop ascii_platform \<lparr>console = [], network = ns, inbuf = b, peer_closed = c\<rparr>
     = ([Stdout prompt], Raised EOFError)"
  by (rule loop_Raise) (simp add: body_def)

lemma run_hello:
  "loop ascii_platform \<lparr>console = [str ''hello''], network = [Arrives [0x68, 0x69] False],
       inbuf = [], peer_closed = False\<rparr>
     = ([Stdout prompt, SendAll [0x68, 0x65, 0x6C, 0x6C, 0x6F], Recv 1024 (Some [0x68, 0x69]),
         Stdout (str ''hi'' @ [10]), Stdout prompt], Raised EOFError)"
proof -
  have "body ascii_platform \<lparr>console = [str ''hello''], network = [Arrives [0x68, 0x69] False],
       inbuf = [], peer_closed = False\<rparr>
     = ([Stdout prompt, SendAll [0x68, 0x65, 0x6C, 0x6C, 0x6F], Recv 1024 (Some [0x68, 0x69]),
         Stdout (str ''hi'' @ [10])],
        Next \<lparr>console = [], network = [], inbuf = [], peer_closed = False\<rparr>)"
    by (simp add: run_defs newline_def)
  from loop_Next [OF this] show ?thesis
    by (simp add: run_eof)
qed

theorem closing_notice_only_after_break_witness:
  "parse_args ascii_platform
      (argv \<lparr>argv = argv_ok, connect_fails = False, stdin = [str ''exit''], peer = []\<rparr>)
     = Inr (str ''localhost'', 8080)
   \<and> snd (loop ascii_platform (session0
        \<lparr>argv = argv_ok, connect_fails = False, stdin = [str ''exit''], peer = []\<rparr>)) = Broke
   \<and> snd (main ascii_platform
        \<lparr>argv = argv_ok, connect_fails = False, stdin = [str ''exit''], peer = []\<rparr>) = Exit 0
   \<and> snd (loop ascii_platform (session0
        \<lparr>argv = argv_ok, connect_fails = False, stdin = [], peer = []\<rparr>)) = Raised EOFError
   \<and> snd (main ascii_platform
        \<lparr>argv = argv_ok, connect_fails = False, stdin = [], peer = []\<rparr>) = Uncaught EOFError
   \<and> Stderr (str ''[*] Connection closed.'' @ [10]) \<notin> set (fst (main ascii_platform
        \<lparr>argv = argv_ok, connect_fails = False, stdin = [], peer = []\<rparr>))"
  using closing_notice_only_after_break [of ascii_platform
      "\<lparr>argv = argv_ok, connect_fails = False, stdin = [str ''exit''], peer = []\<rparr>"
      "str ''localhost''" 8080]
    closing_notice_only_after_break [of ascii_platform
      "\<lparr>argv = argv_ok, connect_fails = False, stdin = [], peer = []\<rparr>"
      "str ''localhost''" 8080]
    run_exit run_eof [of "[]" "[]" False]
  by (simp add: parse_argv_ok session0_def)

text \<open>
  C1 as stated fails: with the console at end-of-file, the run ends with the error report of
  the EOFError, and the closing notice is nowhere in it.
\<close>

theorem end_of_input_skips_closing_notice:
  "main ascii_platform \<lparr>argv = argv_ok, connect_fails = False, stdin = [], peer = []\<rparr>
     = ([Connect (str ''localhost'') 8080 True, Stderr (banner (str ''localhost'') 8080),
         Stdout (str ''> ''), Close, Traceback EOFError], Uncaught EOFError)
   \<and> Stderr (str ''[*] Connection closed.'' @ [10])
       \<notin> set (fst (main ascii_platform
             \<lparr>argv = argv_ok, connect_fails = False, stdin = [], peer = []\<rparr>))"
  using run_eof [of "[]" "[]" False] banner_not_closing [of "str ''localhost''" 8080]
  by (simp add: main_def parse_argv_ok session0_def prompt_def closing_text)

text \<open>
  C2 as stated fails: one line is exchanged, then the console is at end-of-file. The
  process ends with status 1, not 0, and without the closing notice.
\<close>

theorem end_of_input_exits_with_status_1:
  "main ascii_platform \<lparr>argv = argv_ok, connect_fails = False, stdin = [str ''hello''],
        peer = [Arrives [0x68, 0x69] False]\<rparr>
     = ([Connect (str ''localhost'') 8080 True, Stderr (banner (str ''localhost'') 8080),
         Stdout (str ''> ''), SendAll [0x68, 0x65, 0x6C, 0x6C, 0x6F],
         Recv 1024 (Some [0x68, 0x69]), Stdout (str ''hi'' @ [10]),
         Stdout (str ''> ''), Close, Traceback EOFError], Uncaught EOFError)
   \<and> exit_status (snd (main ascii_platform \<lparr>argv = argv_ok, connect_fails = False,
        stdin = [str ''hello''], peer = [Arrives [0x68, 0x69] False]\<rparr>)) = Some 1
   \<and> Stderr (str ''[*] Connection closed.'' @ [10])
       \<notin> set (fst (main ascii_platform \<lparr>argv = argv_ok, connect_fails = False,
        stdin = [str ''hello''], peer = [Arrives [0x68, 0x69] False]\<rparr>))"
  using run_hello banner_not_closing [of "str ''localhost''" 8080]
  by (simp add: main_def parse_argv_ok session0_def prompt_def exit_status_def closing_text)

text \<open>
  C2, as amended. At end-of-file \<^verbatim>\<open>input\<close> raises EOFError right after the prompt, in any
  pass of the loop, so the loop is left without the exit token. Nothing catches the
  exception: the socket is closed, the closing notice is not printed, and the process ends
  with the error report and exit status 1.
\<close>

theorem end_of_input_is_uncaught:
  assumes "parse_args P (argv E) = Inr (host, port)" and "\<not> connect_fails E"
  shows "(\<forall>s. console s = [] \<longrightarrow> loop P s = ([prompt_event P], Raised EOFError))
     \<and> (snd (loop P (session0 E)) = Raised EOFError \<longrightarrow>
          (\<exists>ev. fst (main P E)
               = [Connect host port True, Stderr (banner host port)] @ ev
                 @ [prompt_event P, Close, Traceback EOFError])
          \<and> Stderr (str ''[*] Connection closed.'' @ [10]) \<notin> set (fst (main P E))
          \<and> snd (main P E) = Uncaught EOFError
          \<and> exit_status (snd (main P E)) = Some 1)"
proof (intro conjI allI impI)
  fix s :: session
  assume "console s = []"
  then have "body P s = ([prompt_event P], Raise EOFError)"
    by (rule body_eof)
  then show "loop P s = ([prompt_event P], Raised EOFError)"
    by (simp add: loop_Raise prompt_def)
next
  assume r: "snd (loop P (session0 E)) = Raised EOFError"
  then obtain ev where ev: "fst (loop P (session0 E)) = ev @ [prompt_event P]"
    using loop_eof_at_prompt by blast
  have l: "loop P (session0 E) = (ev @ [prompt_event P], Raised EOFError)"
    using r ev by (simp add: prod_eq_iff)
  have m: "main P E = ([Connect host port True, Stderr (banner host port)] @ ev
                 @ [prompt_event P, Close, Traceback EOFError], Uncaught EOFError)"
    using main_Raised [OF assms l] by simp
  show "\<exists>ev. fst (main P E)
               = [Connect host port True, Stderr (banner host port)] @ ev
                 @ [prompt_event P, Close, Traceback EOFError]"
    using m by (auto simp: prompt_def)
  show "snd (main P E) = Uncaught EOFError"
    using m by simp
  show "exit_status (snd (main P E)) = Some 1"
    using m by (simp add: exit_status_def)
  show "Stderr (str ''[*] Connection closed.'' @ [10]) \<notin> set (fst (main P E))"
    using no_notice_when_raised [OF assms r] by (simp add: closing_text)
qed

theorem end_of_input_is_uncaught_witness:
  "parse_args ascii_platform
      (argv \<lparr>argv = argv_ok, connect_fails = False, stdin = [], peer = []\<rparr>)
     = Inr (str ''localhost'', 8080)
   \<and> \<not> connect_fails \<lparr>argv = argv_ok, connect_fails = False, stdin = [], peer = []\<rparr>
   \<and> console (session0 \<lparr>argv = argv_ok, connect_fails = False, stdin = [], peer = []\<rparr>) = []
   \<and> snd (loop ascii_platform (session0
        \<lparr>argv = argv_ok, connect_fails = False, stdin = [], peer = []\<rparr>)) = Raised EOFError
   \<and> exit_status (snd (main ascii_platform
        \<lparr>argv = argv_ok, connect_fails = False, stdin = [], peer = []\<rparr>)) = Some 1"
proof -
  let ?E = "\<lparr>argv = argv_ok, connect_fails = False, stdin = [], peer = []\<rparr>"
  have p: "parse_args ascii_platform (argv ?E) = Inr (str ''localhost'', 8080)"
    by (simp add: parse_argv_ok)
  have n: "\<not> connect_fails ?E"
    by simp
  have c: "console (session0 ?E) = []"
    by (simp add: session0_def)
  note t = end_of_input_is_uncaught [OF p n]
  from t c have "loop ascii_platform (session0 ?E)
      = ([prompt_event ascii_platform], Raised EOFError)"
    by blast
  then have r: "snd (loop ascii_platform (session0 ?E)) = Raised EOFError"
    by simp
  with t have "exit_status (snd (main ascii_platform ?E)) = Some 1"
    by blast
  with p n c r show ?thesis
    by blast
qed

lemma padded_is_not_exit:
  assumes "m \<noteq> []" and "list_all is_ascii m" and "is_space (hd m) \<or> is_space (last m)"
  shows "lower P m \<noteq> str ''exit''"
proof
  assume "lower P m = str ''exit''"
  with assms(2) have e: "map ascii_lower m = [101, 120, 105, 116]"
    by (simp add: lower_def)
  then have "hd (map ascii_lower m) = 101" and "last (map ascii_lower m) = 116"
    by simp_all
  with assms(1) have "ascii_lower (hd m) = 101" and "ascii_lower (last m) = 116"
    by (simp_all add: hd_map last_map)
  with assms(3) show False
    by (auto simp: ascii_lower_def is_space_def split: if_splits)
qed

lemma encode_ascii: "list_all is_ascii m \<Longrightarrow> encode m = Some (map of_nat m)"
  by (induction m) (simp_all add: encode_cp_def is_ascii_def)

lemma body_sends:
  assumes "console s = m # rest" and "lower P m \<noteq> str ''exit''"
    and "encode m = Some payload"
  shows "(\<exists>ev. fst (body P s) = prompt_event P # SendAll payload # ev)
     \<and> snd (body P s) \<noteq> Break"
  using assms
  by (simp add: body_def split: option.splits net_step.splits prod.splits)

text \<open>
  C3, as amended. A line whose lower-cased value equals \<^verbatim>\<open>exit\<close> as it stands, without
  trimming, ends the loop by \<^verbatim>\<open>break\<close> right after the prompt, and nothing is sent. An
  ASCII line that begins or ends with white space is never the exit token: in any pass
  that reads such a line, its bytes are handed to the send-all primitive right after the
  prompt, and the pass does not end the loop by \<^verbatim>\<open>break\<close>.
\<close>

theorem exit_token_is_not_trimmed:
  assumes "console s = msg # rest" and "lower P msg = str ''exit''"
  shows "body P s = ([prompt_event P], Break)
     \<and> loop P s = ([prompt_event P], Broke)
     \<and> transmitted (fst (loop P s)) = []
     \<and> (\<forall>m. m \<noteq> [] \<and> list_all is_ascii m \<and> (is_space (hd m) \<or> is_space (last m))
            \<longrightarrow> lower P m \<noteq> str ''exit'')
     \<and> (\<forall>s' m rest'. console s' = m # rest' \<and> m \<noteq> [] \<and> list_all is_ascii m
              \<and> (is_space (hd m) \<or> is_space (last m))
            \<longrightarrow> (\<exists>ev. fst (body P s') = prompt_event P # SendAll (map of_nat m) # ev)
                \<and> snd (body P s') \<noteq> Break
                \<and> (\<exists>ev. fst (loop P s') = prompt_event P # SendAll (map of_nat m) # ev))"
proof -
  have b: "body P s = ([prompt_event P], Break)"
    using assms by (rule body_exit)
  then have l: "loop P s = ([prompt_event P], Broke)"
    by (rule loop_Break)
  have t: "transmitted (fst (loop P s)) = []"
    unfolding l by (simp add: prompt_event_def)
  have sent: "(\<exists>ev. fst (body P s') = prompt_event P # SendAll (map of_nat m) # ev)
                \<and> snd (body P s') \<noteq> Break
                \<and> (\<exists>ev. fst (loop P s') = prompt_event P # SendAll (map of_nat m) # ev)"
    if "console s' = m # rest' \<and> m \<noteq> [] \<and> list_all is_ascii m
              \<and> (is_space (hd m) \<or> is_space (last m))" for s' m rest'
  proof -
    from that have c: "console s' = m # rest'" and e: "encode m = Some (map of_nat m)"
      by (simp_all add: encode_ascii)
    from that have n: "lower P m \<noteq> str ''exit''"
      using padded_is_not_exit [of m P] by blast
    note bs = body_sends [OF c n e]
    then obtain ev where ev: "fst (body P s') = prompt_event P # SendAll (map of_nat m) # ev"
      by blast
    obtain ev' where "fst (loop P s') = fst (body P s') @ ev'"
      using loop_body_prefix by blast
    with ev have "fst (loop P s') = prompt_event P # SendAll (map of_nat m) # (ev @ ev')"
      by simp
    with bs show ?thesis
      by blast
  qed
  show ?thesis
    using b l t padded_is_not_exit [of _ P] sent by blast
qed

theorem exit_token_is_not_trimmed_witness:
  "lower ascii_platform (str ''exit'') = str ''exit''
   \<and> lower ascii_platform (str ''EXIT'') = str ''exit''
   \<and> lower ascii_platform (str ''Exit'') = str ''exit''
   \<and> loop ascii_platform \<lparr>console = [str ''exit'', str ''more''], network = [], inbuf = [],
        peer_closed = False\<rparr> = ([Stdout (str ''> '')], Broke)
   \<and> loop ascii_platform \<lparr>console = [str ''EXIT''], network = [], inbuf = [],
        peer_closed = False\<rparr> = ([Stdout (str ''> '')], Broke)
   \<and> loop ascii_platform \<lparr>console = [str ''Exit''], network = [], inbuf = [],
        peer_closed = False\<rparr> = ([Stdout (str ''> '')], Broke)
   \<and> lower ascii_platform (str '' exit '') \<noteq> str ''exit''
   \<and> (\<exists>ev. fst (body ascii_platform \<lparr>console = [str '' exit ''], network = [], inbuf = [],
        peer_closed = False\<rparr>)
          = Stdout (str ''> '') # SendAll [0x20, 0x65, 0x78, 0x69, 0x74, 0x20] # ev)
   \<and> snd (body ascii_platform \<lparr>console = [str '' exit ''], network = [], inbuf = [],
        peer_closed = False\<rparr>) \<noteq> Break"
proof -
  let ?pad = "\<lparr>console = [str '' exit ''], network = [], inbuf = [], peer_closed = False\<rparr>"
  have l: "lower ascii_platform (str ''exit'') = str ''exit''"
    "lower ascii_platform (str ''EXIT'') = str ''exit''"
    "lower ascii_platform (str ''Exit'') = str ''exit''"
    by (simp_all add: lower_def is_ascii_def ascii_lower_def)
  have p: "console ?pad = str '' exit '' # [] \<and> str '' exit '' \<noteq> []
     \<and> list_all is_ascii (str '' exit '')
     \<and> (is_space (hd (str '' exit '')) \<or> is_space (last (str '' exit '')))"
    by (simp add: is_ascii_def is_space_def)
  have q: "str '' exit '' \<noteq> [] \<and> list_all is_ascii (str '' exit '')
     \<and> (is_space (hd (str '' exit '')) \<or> is_space (last (str '' exit '')))"
    using p by blast
  note t1 = exit_token_is_not_trimmed [of "\<lparr>console = [str ''exit'', str ''more''],
        network = [], inbuf = [], peer_closed = False\<rparr>" "str ''exit''" "[str ''more'']"
        ascii_platform]
    and t2 = exit_token_is_not_trimmed [of "\<lparr>console = [str ''EXIT''], network = [],
        inbuf = [], peer_closed = False\<rparr>" "str ''EXIT''" "[]" ascii_platform]
    and t3 = exit_token_is_not_trimmed [of "\<lparr>console = [str ''Exit''], network = [],
        inbuf = [], peer_closed = False\<rparr>" "str ''Exit''" "[]" ascii_platform]
  have r1: "loop ascii_platform \<lparr>console = [str ''exit'', str ''more''], network = [],
        inbuf = [], peer_closed = False\<rparr> = ([Stdout (str ''> '')], Broke)"
    using t1 l by (simp add: prompt_def)
  have r2: "loop ascii_platform \<lparr>console = [str ''EXIT''], network = [], inbuf = [],
        peer_closed = False\<rparr> = ([Stdout (str ''> '')], Broke)"
    using t2 l by (simp add: prompt_def)
  have r3: "loop ascii_platform \<lparr>console = [str ''Exit''], network = [], inbuf = [],
        peer_closed = False\<rparr> = ([Stdout (str ''> '')], Broke)"
    using t3 l by (simp add: prompt_def)
  have all: "\<forall>s' m rest'. console s' = m # rest' \<and> m \<noteq> [] \<and> list_all is_ascii m
              \<and> (is_space (hd m) \<or> is_space (last m))
            \<longrightarrow> (\<exists>ev. fst (body ascii_platform s')
                        = prompt_event ascii_platform # SendAll (map of_nat m) # ev)
                \<and> snd (body ascii_platform s') \<noteq> Break
                \<and> (\<exists>ev. fst (loop ascii_platform s')
                        = prompt_event ascii_platform # SendAll (map of_nat m) # ev)"
    and never: "\<forall>m. m \<noteq> [] \<and> list_all is_ascii m \<and> (is_space (hd m) \<or> is_space (last m))
            \<longrightarrow> lower ascii_platform m \<noteq> str ''exit''"
    using t1 l(1) by simp_all
  from never q have n: "lower ascii_platform (str '' exit '') \<noteq> str ''exit''"
    by blast
  from all p have "(\<exists>ev. fst (body ascii_platform ?pad)
                        = prompt_event ascii_platform # SendAll (map of_nat (str '' exit '')) # ev)
                \<and> snd (body ascii_platform ?pad) \<noteq> Break"
    by blast
  then have s: "(\<exists>ev. fst (body ascii_platform ?pad)
          = Stdout (str ''> '') # SendAll [0x20, 0x65, 0x78, 0x69, 0x74, 0x20] # ev)
      \<and> snd (body ascii_platform ?pad) \<noteq> Break"
    by (simp add: prompt_def)
  from l r1 r2 r3 n s show ?thesis
    by blast
qed

text \<open>
  C3 as stated fails: the line \<^verbatim>\<open>" exit "\<close> is the exit token once trimmed, and the loop
  sends its six bytes and goes on.
\<close>

theorem padded_exit_is_sent:
  "spec_exit_token (str '' exit '')
   \<and> body ascii_platform \<lparr>console = [str '' exit ''], network = [Arrives [0x6F, 0x6B] False],
        inbuf = [], peer_closed = False\<rparr>
     = ([Stdout (str ''> ''), SendAll [0x20, 0x65, 0x78, 0x69, 0x74, 0x20],
         Recv 1024 (Some [0x6F, 0x6B]), Stdout (str ''ok'' @ [10])],
        Next \<lparr>console = [], network = [], inbuf = [], peer_closed = False\<rparr>)"
  by (simp add: spec_exit_token_def strip_def is_space_def run_defs prompt_def newline_def)

text \<open>
  C4. Every run follows the life cycle DISCONNECTED, CONNECTED, CLOSED: never a second
  connection, no send or receive on a socket that is not open, no second close. A run that
  connected and did not block for ever ends in CLOSED and has closed the socket exactly
  once.
\<close>

theorem connection_lifecycle:
  "lifecycle DISCONNECTED (fst (main P E)) \<noteq> None
   \<and> ((\<exists>h p. Connect h p True \<in> set (fst (main P E))) \<and> snd (main P E) \<noteq> Blocked
        \<longrightarrow> lifecycle DISCONNECTED (fst (main P E)) = Some CLOSED
            \<and> count_list (fst (main P E)) Close = 1)"
proof (cases "parse_args P (argv E)")
  case (Inl e)
  then show ?thesis
    by (cases e) (simp_all add: main_def)
next
  case (Inr hp)
  obtain host port where hp: "hp = (host, port)"
    by (cases hp)
  note parse = Inr [unfolded hp]
  show ?thesis
  proof (cases "connect_fails E")
    case True
    with parse show ?thesis by (simp add: main_def)
  next
    case False
    obtain ev r where l: "loop P (session0 E) = (ev, r)"
      by (cases "loop P (session0 E)")
    have i: "list_all in_loop ev"
      using loop_in_loop [of P "session0 E"] l by simp
    note lc = lifecycle_in_loop [OF i] and cc = count_close_in_loop [OF i]
    show ?thesis
    proof (cases r)
      case Broke
      with l have "main P E = ([Connect host port True, Stderr (banner host port)] @ ev
                     @ [Close, Stderr closing_notice], Exit 0)"
        using main_Broke [OF parse False] by simp
      then show ?thesis
        using lc cc by (simp add: lifecycle_append)
    next
      case (Raised e)
      with l have "main P E = ([Connect host port True, Stderr (banner host port)] @ ev
                     @ [Close, Traceback e], Uncaught e)"
        using main_Raised [OF parse False] by simp
      then show ?thesis
        using lc cc by (simp add: lifecycle_append)
    next
      case Stalled
      with l have "main P E = ([Connect host port True, Stderr (banner host port)] @ ev, Blocked)"
        using main_Stalled [OF parse False] by simp
      then show ?thesis
        using lc by simp
    qed
  qed
qed

theorem connection_lifecycle_witness:
  "Connect (str ''localhost'') 8080 True \<in> set (fst (main ascii_platform
      \<lparr>argv = argv_ok, connect_fails = False, stdin = [str ''hello''],
        peer = [Arrives [0x68, 0x69] False]\<rparr>))
   \<and> snd (main ascii_platform \<lparr>argv = argv_ok, connect_fails = False, stdin = [str ''hello''],
        peer = [Arrives [0x68, 0x69] False]\<rparr>) \<noteq> Blocked
   \<and> lifecycle DISCONNECTED (fst (main ascii_platform
      \<lparr>argv = argv_ok, connect_fails = False, stdin = [str ''hello''],
        peer = [Arrives [0x68, 0x69] False]\<rparr>)) = Some CLOSED
   \<and> count_list (fst (main ascii_platform
      \<lparr>argv = argv_ok, connect_fails = False, stdin = [str ''hello''],
        peer = [Arrives [0x68, 0x69] False]\<rparr>)) Close = 1"
proof -
  have m: "main ascii_platform \<lparr>argv = argv_ok, connect_fails = False, stdin = [str ''hello''],
        peer = [Arrives [0x68, 0x69] False]\<rparr>
     = ([Connect (str ''localhost'') 8080 True, Stderr (banner (str ''localhost'') 8080),
         Stdout prompt, SendAll [0x68, 0x65, 0x6C, 0x6C, 0x6F],
         Recv 1024 (Some [0x68, 0x69]), Stdout (str ''hi'' @ [10]),
         Stdout prompt, Close, Traceback EOFError], Uncaught EOFError)"
    using run_hello by (simp add: main_def parse_argv_ok session0_def)
  have c: "Connect (str ''localhost'') 8080 True \<in> set (fst (main ascii_platform
      \<lparr>argv = argv_ok, connect_fails = False, stdin = [str ''hello''],
        peer = [Arrives [0x68, 0x69] False]\<rparr>))"
    and b: "snd (main ascii_platform \<lparr>argv = argv_ok, connect_fails = False,
        stdin = [str ''hello''], peer = [Arrives [0x68, 0x69] False]\<rparr>) \<noteq> Blocked"
    unfolding m by simp_all
  show ?thesis
    using c b connection_lifecycle [of ascii_platform
      "\<lparr>argv = argv_ok, connect_fails = False, stdin = [str ''hello''],
        peer = [Arrives [0x68, 0x69] False]\<rparr>"]
    by blast
qed

section \<open>One pass of the loop\<close>

lemma lower_empty: "lower P [] = []"
  by (simp add: lower_def)

lemma decode_empty: "decode [] = Some []"
  by (simp add: decode_def)

lemma body_received:
  assumes "console s = msg # rest" and "lower P msg \<noteq> str ''exit''"
    and "encode msg = Some payload" and "next_net (network s) = Arrives d fin"
    and "sock_recv 1024 (incoming s d) (peer_closed s \<or> fin) = Some (response, unread)"
  shows "body P s =
     (case decode response of
        None \<Rightarrow> ([prompt_event P, SendAll payload, Recv 1024 (Some response)],
                 Raise UnicodeDecodeError)
      | Some text \<Rightarrow>
          ([prompt_event P, SendAll payload, Recv 1024 (Some response), Stdout (text @ newline)],
           Next \<lparr>console = rest, network = tl (network s), inbuf = unread,
                 peer_closed = (peer_closed s \<or> fin)\<rparr>))"
  using assms by (simp add: body_def)

text \<open>
  C5. A line has been sent, no unread byte is left and the peer has closed: the receive
  call returns the empty byte string, which decodes to the empty string. The pass prints
  an empty line on standard output and ends normally, and the loop goes on with the next
  prompt.
\<close>

theorem zero_byte_receive_prints_empty_line:
  assumes "console s = msg # rest" and "lower P msg \<noteq> str ''exit''"
    and "encode msg = Some payload" and "next_net (network s) = Arrives d fin"
    and "incoming s d = []" and "peer_closed s \<or> fin"
  shows "sock_recv 1024 (incoming s d) (peer_closed s \<or> fin) = Some ([], [])
     \<and> decode [] = Some []
     \<and> body P s = ([prompt_event P, SendAll payload, Recv 1024 (Some []), Stdout [10]],
                   Next \<lparr>console = rest, network = tl (network s), inbuf = [],
                         peer_closed = True\<rparr>)
     \<and> (\<exists>ev. fst (loop P s)
            = [prompt_event P, SendAll payload, Recv 1024 (Some []), Stdout [10],
               prompt_event P] @ ev)"
proof -
  have r: "sock_recv 1024 (incoming s d) (peer_closed s \<or> fin) = Some ([], [])"
    using assms(5,6) by (simp add: sock_recv_def)
  have b: "body P s = ([prompt_event P, SendAll payload, Recv 1024 (Some []), Stdout [10]],
                   Next \<lparr>console = rest, network = tl (network s), inbuf = [],
                         peer_closed = True\<rparr>)"
    using body_received [OF assms(1-4) r] assms(6) by (simp add: decode_empty newline_def)
  obtain ev where "fst (loop P \<lparr>console = rest, network = tl (network s), inbuf = [],
                         peer_closed = True\<rparr>) = prompt_event P # ev"
    using loop_prompt_first by blast
  with loop_Next [OF b]
  have "fst (loop P s) = [prompt_event P, SendAll payload, Recv 1024 (Some []), Stdout [10],
               prompt_event P] @ ev"
    by simp
  then show ?thesis
    using r b by (simp add: decode_empty prompt_def)
qed

theorem zero_byte_receive_prints_empty_line_witness:
  "console \<lparr>console = [str ''ping'', str ''exit''], network = [], inbuf = [],
        peer_closed = True\<rparr> = [str ''ping'', str ''exit'']
   \<and> lower ascii_platform (str ''ping'') \<noteq> str ''exit''
   \<and> encode (str ''ping'') = Some [0x70, 0x69, 0x6E, 0x67]
   \<and> next_net [] = Arrives [] False
   \<and> body ascii_platform \<lparr>console = [str ''ping'', str ''exit''], network = [], inbuf = [],
        peer_closed = True\<rparr>
     = ([Stdout (str ''> ''), SendAll [0x70, 0x69, 0x6E, 0x67], Recv 1024 (Some []),
         Stdout [10]],
        Next \<lparr>console = [str ''exit''], network = [], inbuf = [], peer_closed = True\<rparr>)"
proof -
  let ?s = "\<lparr>console = [str ''ping'', str ''exit''], network = [], inbuf = [],
        peer_closed = True\<rparr>"
  have a: "console ?s = str ''ping'' # [str ''exit'']"
    by simp
  have l: "lower ascii_platform (str ''ping'') \<noteq> str ''exit''"
    by (simp add: lower_def is_ascii_def ascii_lower_def)
  have e: "encode (str ''ping'') = Some [0x70, 0x69, 0x6E, 0x67]"
    by (simp add: encode_cp_def)
  have n: "next_net (network ?s) = Arrives [] False"
    by (simp add: next_net_def)
  have i: "incoming ?s [] = []"
    by (simp add: incoming_def)
  have c: "peer_closed ?s \<or> False"
    by simp
  from zero_byte_receive_prints_empty_line [OF a l e n i c] l e n
  show ?thesis
    by (simp add: prompt_def)
qed

text \<open>
  C10. An empty line is not the exit token and encodes to no bytes. The pass still calls
  the send-all primitive, with the empty payload, so that nothing goes out, and then the
  receive call; it blocks there exactly when no unread byte has come in and the peer has
  not closed.
\<close>

theorem empty_line_is_sent_and_waits:
  assumes "console s = [] # rest" and "next_net (network s) = Arrives d fin"
  shows "lower P [] \<noteq> str ''exit''
     \<and> encode [] = Some []
     \<and> (\<exists>r ev. fst (body P s) = prompt_event P # SendAll [] # Recv 1024 r # ev)
     \<and> transmitted (fst (body P s)) = []
     \<and> (snd (body P s) = Block \<longleftrightarrow> incoming s d = [] \<and> \<not> peer_closed s \<and> \<not> fin)"
  using assms
  by (auto simp: body_def lower_empty sock_recv_def prompt_def split: option.splits)

theorem empty_line_is_sent_and_waits_witness:
  "console \<lparr>console = [[], str ''exit''], network = [], inbuf = [], peer_closed = False\<rparr>
     = [] # [str ''exit'']
   \<and> next_net [] = Arrives [] False
   \<and> body ascii_platform
        \<lparr>console = [[], str ''exit''], network = [], inbuf = [], peer_closed = False\<rparr>
     = ([Stdout (str ''> ''), SendAll [], Recv 1024 None], Block)"
proof -
  let ?s = "\<lparr>console = [[], str ''exit''], network = [], inbuf = [], peer_closed = False\<rparr>"
  have a: "console ?s = [] # [str ''exit'']"
    by simp
  have n: "next_net (network ?s) = Arrives [] False"
    by (simp add: next_net_def)
  have b: "body ascii_platform ?s = ([Stdout (str ''> ''), SendAll [], Recv 1024 None], Block)"
    by (simp add: run_defs prompt_def)
  from empty_line_is_sent_and_waits [OF a n, of ascii_platform] a n b
  show ?thesis
    by simp
qed

section \<open>Standard output\<close>











lemma terminal_prompt [simp]: "prompt_event terminal_platform = Stderr prompt"
  by (simp add: prompt_event_def terminal_platform_def)






section \<open>Responses longer than one receive\<close>
















end
